theory Spec2Isabelle
  imports Complex_Main
begin

section \<open>JavaScript values\<close>

text \<open>
  The override object reaches \<open>getConfig\<close> as a plain JavaScript object. Its interface
  types the fields, but call sites that are not type checked can store any value, so a
  field is modelled by the run-time value it holds. A property that is missing reads as
  \<open>undefined\<close>, exactly as one that was set to \<open>undefined\<close>. Numbers are only stored and
  compared with \<open>undefined\<close> and \<open>null\<close>, never computed with; they are represented
  by integers. Arrays are modelled by their contents.
\<close>

datatype jsval =
    Undefined
  | Null
  | Bool bool
  | Num int
  | Str string
  | Arr "jsval list"

text \<open>\<^verbatim>\<open>Array.isArray(v)\<close>\<close>

fun isArray :: "jsval \<Rightarrow> bool" where
  "isArray (Arr xs) = True"
| "isArray v = False"

text \<open>The nullish coalescing operator \<^verbatim>\<open>a ?? b\<close>: \<open>b\<close> when \<open>a\<close> is \<open>null\<close> or \<open>undefined\<close>.\<close>

definition nullish :: "jsval \<Rightarrow> jsval \<Rightarrow> jsval" where
  "nullish a b = (if a = Undefined \<or> a = Null then b else a)"

section \<open>The default policy pack (policies.ts)\<close>

text \<open>
  \<^verbatim>\<open>
  export interface DefaultPolicyPackConfig {
      allowedDomains?: string[] | null;
      maxQuerySize?: number | null;
      requireApprovalFor?: string[] | null;
      blockPii?: boolean;
      blockSecrets?: boolean;
  }
  \<close>
\<close>

record DefaultPolicyPackConfig =
  allowedDomains :: jsval
  maxQuerySize :: jsval
  requireApprovalFor :: jsval
  blockPii :: jsval
  blockSecrets :: jsval

text \<open>The object literal \<^verbatim>\<open>{}\<close>: every property is missing.\<close>

definition empty_config :: DefaultPolicyPackConfig where
  "empty_config =
     \<lparr>allowedDomains = Undefined, maxQuerySize = Undefined, requireApprovalFor = Undefined,
      blockPii = Undefined, blockSecrets = Undefined\<rparr>"

text \<open>
  \<^verbatim>\<open>
  const DEFAULT_POLICY_CONFIG = {
      maxQuerySize: 1000,
      requireApprovalFor: ['delete', 'update', 'export'],
      blockPii: true,
      blockSecrets: true,
  } as const;
  \<close>
  The constant has no \<open>allowedDomains\<close> property.
\<close>

definition DEFAULT_POLICY_CONFIG :: DefaultPolicyPackConfig where
  "DEFAULT_POLICY_CONFIG =
     \<lparr>allowedDomains = Undefined,
      maxQuerySize = Num 1000,
      requireApprovalFor = Arr [Str ''delete'', Str ''update'', Str ''export''],
      blockPii = Bool True,
      blockSecrets = Bool True\<rparr>"

text \<open>The class \<open>DefaultPolicyPack\<close> has one private field, \<open>config\<close>.\<close>

record DefaultPolicyPack =
  config :: DefaultPolicyPackConfig

text \<open>
  \<^verbatim>\<open>constructor(config: DefaultPolicyPackConfig = {}) { this.config = config; }\<close>
  The argument is \<open>None\<close> when the constructor is called without one; the default
  parameter then supplies the empty object.
\<close>

definition new_DefaultPolicyPack :: "DefaultPolicyPackConfig option \<Rightarrow> DefaultPolicyPack" where
  "new_DefaultPolicyPack arg =
     \<lparr>config = (case arg of None \<Rightarrow> empty_config | Some c \<Rightarrow> c)\<rparr>"

text \<open>The returned object \<^verbatim>\<open>{ policies: Record<string, any> }\<close>.\<close>

record PolicyResult =
  policies :: "string \<rightharpoonup> jsval"

text \<open>
  \<open>getConfig\<close>, statement by statement. The method runs on the object \<open>this\<close>; the model
  passes the object in and returns it beside the result, so that what the method does to
  the stored configuration is part of its value. \<open>p0\<close> to \<open>p5\<close> are the successive
  contents of the local object \<open>policies\<close>.
\<close>

definition getConfig :: "DefaultPolicyPack \<Rightarrow> PolicyResult \<times> DefaultPolicyPack" where
  "getConfig this =
     (let p0 = Map.empty;
          cfg = config this;
          p1 = (if isArray (allowedDomains cfg)
                then p0(''allowed_domains'' \<mapsto> allowedDomains cfg) else p0);
          mqs = (if maxQuerySize cfg = Undefined
                 then maxQuerySize DEFAULT_POLICY_CONFIG else maxQuerySize cfg);
          p2 = (if mqs \<noteq> Null then p1(''max_query_size'' \<mapsto> mqs) else p1);
          raf = (if requireApprovalFor cfg = Undefined
                 then requireApprovalFor DEFAULT_POLICY_CONFIG else requireApprovalFor cfg);
          p3 = (if raf \<noteq> Null then p2(''require_approval_for'' \<mapsto> raf) else p2);
          p4 = p3(''block_pii'' \<mapsto> nullish (blockPii cfg) (blockPii DEFAULT_POLICY_CONFIG));
          p5 = p4(''block_secrets'' \<mapsto>
                 nullish (blockSecrets cfg) (blockSecrets DEFAULT_POLICY_CONFIG))
      in (\<lparr>policies = p5\<rparr>, this))"

text \<open>
  The builder under the specification's name: \<open>buildDefaultPolicies(overrides)\<close> is
  \<^verbatim>\<open>new DefaultPolicyPack(overrides).getConfig()\<close>.
\<close>

definition buildDefaultPolicies :: "DefaultPolicyPackConfig \<Rightarrow> PolicyResult" where
  "buildDefaultPolicies overrides = fst (getConfig (new_DefaultPolicyPack (Some overrides)))"

section \<open>The policy pack on a store\<close>














text \<open>
  The statements of \<open>getConfig\<close> that assign to \<open>policies\<close>, each on the store. \<open>d\<close> is
  the address of \<open>DEFAULT_POLICY_CONFIG\<close>, \<open>p\<close> the address of the object \<open>policies\<close> and
  \<open>cfg\<close> the value of the local \<open>config\<close>.
\<close>

















section \<open>The request layer\<close>

text \<open>
  The request layer itself (the HTTP client) is not among the source files; only the
  changelogs and the README describe it. What follows is written from the specification,
  sections 3, 4.1 and 6. The transport is a parameter: a function that gives the outcome
  of each attempt, so that the retry loop can be run without a network. The classification
  of the final outcome into typed errors is left out.
\<close>

text \<open>Modelled from the spec: the five supported verbs of a \<open>RequestSpec\<close>.\<close>

datatype http_method = GET | POST | PUT | PATCH | DELETE

text \<open>
  Modelled from the spec: \<open>ClientConfig\<close>, the API key, the base URL, the optional default
  workspace identifier and the retry policy parameters (max attempts, base delay, backoff
  multiplier). Delays and the multiplier are exact rationals.
\<close>

record ClientConfig =
  apiKey :: string
  baseUrl :: string
  defaultWorkspaceId :: "string option"
  maxAttempts :: nat
  baseDelay :: rat
  backoffMultiplier :: rat

text \<open>
  Modelled from the spec: \<open>RequestSpec\<close>, with method, path, optional body (a JSON
  object), optional query parameters (none is the empty list) and optional per-call
  workspace-id override.
\<close>

record RequestSpec =
  rmethod :: http_method
  rpath :: string
  rbody :: "(string \<rightharpoonup> jsval) option"
  rquery :: "(string \<times> string) list"
  workspaceOverride :: "string option"

text \<open>
  Modelled from the spec: the request as it is handed to the transport, with the API key
  attached as the authorization credential.
\<close>

record Outgoing =
  out_method :: http_method
  out_path :: string
  out_authorization :: string
  out_body :: "(string \<rightharpoonup> jsval) option"
  out_query :: "(string \<times> string) list"

text \<open>Modelled from the spec: the non-fatal warning for a missing workspace id.\<close>

datatype warning = MissingWorkspaceId

text \<open>
  Modelled from the spec: the effective workspace id,
  \<open>spec.workspaceOverride ?? clientConfig.defaultWorkspaceId\<close>.
\<close>

definition resolveWorkspaceId :: "ClientConfig \<Rightarrow> RequestSpec \<Rightarrow> string option" where
  "resolveWorkspaceId cfg spec =
     (case workspaceOverride spec of Some w \<Rightarrow> Some w | None \<Rightarrow> defaultWorkspaceId cfg)"

text \<open>Modelled from the spec: the body-bearing verbs POST, PUT and PATCH.\<close>

definition bodyBearing :: "http_method \<Rightarrow> bool" where
  "bodyBearing m = (m = POST \<or> m = PUT \<or> m = PATCH)"

text \<open>
  Modelled from the spec: workspace injection. With a resolved id, a body-bearing verb
  merges \<open>workspaceId\<close> into the outgoing body, and a field of the caller's body wins on
  a key collision; GET and DELETE append \<open>workspaceId\<close> as a query parameter. Without a
  resolved id the request goes out as it is and one warning is emitted.
\<close>

definition prepare :: "ClientConfig \<Rightarrow> RequestSpec \<Rightarrow> Outgoing \<times> warning list" where
  "prepare cfg spec =
     (let req = \<lparr>out_method = rmethod spec, out_path = rpath spec,
                 out_authorization = apiKey cfg,
                 out_body = rbody spec, out_query = rquery spec\<rparr>
      in case resolveWorkspaceId cfg spec of
           Some w \<Rightarrow>
             if bodyBearing (rmethod spec)
             then (req\<lparr>out_body :=
                        Some ([''workspaceId'' \<mapsto> Str w] ++
                              (case rbody spec of None \<Rightarrow> Map.empty | Some b \<Rightarrow> b))\<rparr>, [])
             else (req\<lparr>out_query := rquery spec @ [(''workspaceId'', w)]\<rparr>, [])
         | None \<Rightarrow> (req, [MissingWorkspaceId]))"

text \<open>
  Modelled from the spec: what one attempt gives, a transport failure or a response with
  its status code and parsed body.
\<close>

datatype outcome = TransportFailure | Response nat jsval

text \<open>
  Modelled from the spec: the retryable outcomes, a transport failure or a status in the
  retryable set (request timeout 408, rate limit 429, and the 5xx server errors).
\<close>

fun retryable :: "outcome \<Rightarrow> bool" where
  "retryable TransportFailure = True"
| "retryable (Response status b) = (status = 408 \<or> status = 429 \<or> (500 \<le> status \<and> status < 600))"

text \<open>
  Modelled from the spec: the backoff delay,
  \<open>baseDelay * backoffMultiplier^(attempt-1)\<close>. The optional jitter and the retry-after
  hint of a 429 response act on the wait that is derived from this delay; they are not
  modelled.
\<close>

definition backoffDelay :: "ClientConfig \<Rightarrow> nat \<Rightarrow> rat" where
  "backoffDelay cfg attempt = baseDelay cfg * backoffMultiplier cfg ^ (attempt - 1)"

text \<open>
  Modelled from the spec: the retry loop, an attempt counter and the retries that are left.
  \<open>attempts cfg transport req n left\<close> makes attempt number \<open>n\<close>; on a retryable outcome
  with retries left it waits for the backoff delay of \<open>n\<close> and goes on with attempt
  \<open>n + 1\<close>. It returns the final outcome and the delays it waited for, in order.
\<close>

fun attempts ::
  "ClientConfig \<Rightarrow> (Outgoing \<Rightarrow> nat \<Rightarrow> outcome) \<Rightarrow> Outgoing \<Rightarrow> nat \<Rightarrow> nat \<Rightarrow> outcome \<times> rat list" where
  "attempts cfg transport req n 0 = (transport req n, [])"
| "attempts cfg transport req n (Suc left) =
     (let out = transport req n
      in if retryable out
         then (case attempts cfg transport req (Suc n) left of
                 (final, ds) \<Rightarrow> (final, backoffDelay cfg n # ds))
         else (out, []))"

text \<open>
  Modelled from the spec: what a call of \<open>send\<close> leaves behind, the final outcome, the
  request that was transmitted, the backoff delays and the warnings.
\<close>

record SendTrace =
  outcome_of :: outcome
  transmitted :: Outgoing
  delays :: "rat list"
  warnings :: "warning list"

text \<open>
  Modelled from the spec: \<open>send\<close>. The request is prepared once, then attempted: the
  first attempt, which is always made, and up to \<open>maxAttempts - 1\<close> retries.
\<close>

definition send :: "ClientConfig \<Rightarrow> (Outgoing \<Rightarrow> nat \<Rightarrow> outcome) \<Rightarrow> RequestSpec \<Rightarrow> SendTrace" where
  "send cfg transport spec =
     (case prepare cfg spec of
        (req, ws) \<Rightarrow>
          (case attempts cfg transport req 1 (maxAttempts cfg - 1) of
             (final, ds) \<Rightarrow>
               \<lparr>outcome_of = final, transmitted = req, delays = ds, warnings = ws\<rparr>))"

text \<open>A transport for examples: every attempt is answered with status 503.\<close>

definition always_unavailable :: "Outgoing \<Rightarrow> nat \<Rightarrow> outcome" where
  "always_unavailable req n = Response 503 Null"

section \<open>Properties of the policy builder\<close>

lemma policies_build:
  "policies (buildDefaultPolicies c) =
     (let p1 = (if isArray (allowedDomains c)
                then Map.empty(''allowed_domains'' \<mapsto> allowedDomains c) else Map.empty);
          mqs = (if maxQuerySize c = Undefined then Num 1000 else maxQuerySize c);
          p2 = (if mqs \<noteq> Null then p1(''max_query_size'' \<mapsto> mqs) else p1);
          raf = (if requireApprovalFor c = Undefined
                 then Arr [Str ''delete'', Str ''update'', Str ''export'']
                 else requireApprovalFor c);
          p3 = (if raf \<noteq> Null then p2(''require_approval_for'' \<mapsto> raf) else p2)
      in p3(''block_pii'' \<mapsto> nullish (blockPii c) (Bool True),
            ''block_secrets'' \<mapsto> nullish (blockSecrets c) (Bool True)))"
  by (simp add: buildDefaultPolicies_def getConfig_def new_DefaultPolicyPack_def
      DEFAULT_POLICY_CONFIG_def Let_def)

lemma policies_lookup:
  "policies (buildDefaultPolicies c) k =
     (if k = ''block_secrets'' then Some (nullish (blockSecrets c) (Bool True))
      else if k = ''block_pii'' then Some (nullish (blockPii c) (Bool True))
      else if k = ''require_approval_for'' then
        (if requireApprovalFor c = Undefined
         then Some (Arr [Str ''delete'', Str ''update'', Str ''export''])
         else if requireApprovalFor c = Null then None else Some (requireApprovalFor c))
      else if k = ''max_query_size'' then
        (if maxQuerySize c = Undefined then Some (Num 1000)
         else if maxQuerySize c = Null then None else Some (maxQuerySize c))
      else if k = ''allowed_domains'' then
        (if isArray (allowedDomains c) then Some (allowedDomains c) else None)
      else None)"
  unfolding policies_build Let_def by simp

text \<open>
  C1. For the empty override object, and also when the constructor gets no argument, the
  result is exactly \<open>{policies: {max_query_size: 1000, require_approval_for: ["delete",
  "update", "export"], block_pii: true, block_secrets: true}}\<close>, and the policies have no
  \<open>allowed_domains\<close> key.
\<close>

theorem C1_empty_overrides:
  "buildDefaultPolicies empty_config =
     \<lparr>policies = [''max_query_size'' \<mapsto> Num 1000,
                  ''require_approval_for'' \<mapsto> Arr [Str ''delete'', Str ''update'', Str ''export''],
                  ''block_pii'' \<mapsto> Bool True,
                  ''block_secrets'' \<mapsto> Bool True]\<rparr>
   \<and> fst (getConfig (new_DefaultPolicyPack None)) = buildDefaultPolicies empty_config
   \<and> policies (buildDefaultPolicies empty_config) ''allowed_domains'' = None
   \<and> dom (policies (buildDefaultPolicies empty_config)) =
       {''max_query_size'', ''require_approval_for'', ''block_pii'', ''block_secrets''}"
  by (auto simp add: buildDefaultPolicies_def getConfig_def new_DefaultPolicyPack_def
      DEFAULT_POLICY_CONFIG_def empty_config_def nullish_def Let_def)

text \<open>
  C2. \<open>maxQuerySize\<close> is tri-state: \<open>null\<close> leaves \<open>max_query_size\<close> out, a missing
  value gives 1000, and any other value (a number \<open>n\<close> in particular) is emitted as it
  is. Whatever \<open>maxQuerySize\<close> holds, every other key of the output is the same.
\<close>

theorem C2_maxQuerySize_tristate:
  "(maxQuerySize c = Null \<longrightarrow>
      policies (buildDefaultPolicies c) ''max_query_size'' = None)
   \<and> (maxQuerySize c = Undefined \<longrightarrow>
      policies (buildDefaultPolicies c) ''max_query_size'' = Some (Num 1000))
   \<and> (maxQuerySize c = Num n \<longrightarrow>
      policies (buildDefaultPolicies c) ''max_query_size'' = Some (Num n))
   \<and> (maxQuerySize c \<noteq> Null \<and> maxQuerySize c \<noteq> Undefined \<longrightarrow>
      policies (buildDefaultPolicies c) ''max_query_size'' = Some (maxQuerySize c))
   \<and> (k \<noteq> ''max_query_size'' \<longrightarrow>
      policies (buildDefaultPolicies (c\<lparr>maxQuerySize := v\<rparr>)) k =
      policies (buildDefaultPolicies c) k)"
  by (simp add: policies_lookup)

theorem C2_maxQuerySize_witness:
  "maxQuerySize (empty_config\<lparr>maxQuerySize := Null\<rparr>) = Null
   \<and> policies (buildDefaultPolicies (empty_config\<lparr>maxQuerySize := Null\<rparr>))
        ''max_query_size'' = None
   \<and> maxQuerySize empty_config = Undefined
   \<and> policies (buildDefaultPolicies empty_config) ''max_query_size'' = Some (Num 1000)
   \<and> maxQuerySize (empty_config\<lparr>maxQuerySize := Num 50\<rparr>) = Num 50
   \<and> policies (buildDefaultPolicies (empty_config\<lparr>maxQuerySize := Num 50\<rparr>))
        ''max_query_size'' = Some (Num 50)
   \<and> ''block_pii'' \<noteq> ''max_query_size''
   \<and> policies (buildDefaultPolicies (empty_config\<lparr>maxQuerySize := Num 50\<rparr>)) ''block_pii'' =
      policies (buildDefaultPolicies empty_config) ''block_pii''"
  using C2_maxQuerySize_tristate [of "empty_config\<lparr>maxQuerySize := Null\<rparr>" 0 "''block_pii''" Null]
    C2_maxQuerySize_tristate [of empty_config 0 "''block_pii''" "Num 50"]
    C2_maxQuerySize_tristate [of "empty_config\<lparr>maxQuerySize := Num 50\<rparr>" 50 "''block_pii''" "Num 50"]
  by (simp add: empty_config_def)

text \<open>
  C3. \<open>requireApprovalFor\<close> is tri-state: \<open>null\<close> leaves \<open>require_approval_for\<close> out, a
  missing value gives \<open>["delete", "update", "export"]\<close>, and any other list is emitted
  with the same elements in the same order.
\<close>

theorem C3_requireApprovalFor_tristate:
  "(requireApprovalFor c = Null \<longrightarrow>
      policies (buildDefaultPolicies c) ''require_approval_for'' = None)
   \<and> (requireApprovalFor c = Undefined \<longrightarrow>
      policies (buildDefaultPolicies c) ''require_approval_for'' =
        Some (Arr [Str ''delete'', Str ''update'', Str ''export'']))
   \<and> (requireApprovalFor c = Arr xs \<longrightarrow>
      policies (buildDefaultPolicies c) ''require_approval_for'' = Some (Arr xs))"
  by (simp add: policies_build Let_def)

theorem C3_requireApprovalFor_witness:
  "requireApprovalFor (empty_config\<lparr>requireApprovalFor := Null\<rparr>) = Null
   \<and> policies (buildDefaultPolicies (empty_config\<lparr>requireApprovalFor := Null\<rparr>))
        ''require_approval_for'' = None
   \<and> requireApprovalFor empty_config = Undefined
   \<and> policies (buildDefaultPolicies empty_config) ''require_approval_for'' =
        Some (Arr [Str ''delete'', Str ''update'', Str ''export''])
   \<and> requireApprovalFor (empty_config\<lparr>requireApprovalFor := Arr [Str ''export'', Str ''drop'']\<rparr>)
        = Arr [Str ''export'', Str ''drop'']
   \<and> policies (buildDefaultPolicies
        (empty_config\<lparr>requireApprovalFor := Arr [Str ''export'', Str ''drop'']\<rparr>))
        ''require_approval_for'' = Some (Arr [Str ''export'', Str ''drop''])"
  using C3_requireApprovalFor_tristate [of "empty_config\<lparr>requireApprovalFor := Null\<rparr>" "[]"]
    C3_requireApprovalFor_tristate [of empty_config "[]"]
    C3_requireApprovalFor_tristate
      [of "empty_config\<lparr>requireApprovalFor := Arr [Str ''export'', Str ''drop'']\<rparr>"
          "[Str ''export'', Str ''drop'']"]
  by (simp add: empty_config_def)

text \<open>
  C4. The output has the key \<open>allowed_domains\<close> exactly when \<open>allowedDomains\<close> holds a
  list; the value is then that list, the empty list included. With \<open>null\<close> or a missing
  value the key is left out.
\<close>

theorem C4_allowedDomains:
  "(''allowed_domains'' \<in> dom (policies (buildDefaultPolicies c))) =
      (\<exists>xs. allowedDomains c = Arr xs)
   \<and> (allowedDomains c = Arr xs \<longrightarrow>
      policies (buildDefaultPolicies c) ''allowed_domains'' = Some (Arr xs))
   \<and> (allowedDomains c = Null \<or> allowedDomains c = Undefined \<longrightarrow>
      policies (buildDefaultPolicies c) ''allowed_domains'' = None)"
  by (cases "allowedDomains c") (auto simp add: policies_build Let_def)

theorem C4_allowedDomains_witness:
  "allowedDomains (empty_config\<lparr>allowedDomains := Arr []\<rparr>) = Arr []
   \<and> policies (buildDefaultPolicies (empty_config\<lparr>allowedDomains := Arr []\<rparr>))
        ''allowed_domains'' = Some (Arr [])
   \<and> allowedDomains (empty_config\<lparr>allowedDomains := Arr [Str ''example.com'']\<rparr>)
        = Arr [Str ''example.com'']
   \<and> policies (buildDefaultPolicies (empty_config\<lparr>allowedDomains := Arr [Str ''example.com'']\<rparr>))
        ''allowed_domains'' = Some (Arr [Str ''example.com''])
   \<and> allowedDomains (empty_config\<lparr>allowedDomains := Null\<rparr>) = Null
   \<and> policies (buildDefaultPolicies (empty_config\<lparr>allowedDomains := Null\<rparr>))
        ''allowed_domains'' = None
   \<and> allowedDomains empty_config = Undefined
   \<and> policies (buildDefaultPolicies empty_config) ''allowed_domains'' = None"
  using C4_allowedDomains [of "empty_config\<lparr>allowedDomains := Arr []\<rparr>" "[]"]
    C4_allowedDomains [of "empty_config\<lparr>allowedDomains := Arr [Str ''example.com'']\<rparr>"
      "[Str ''example.com'']"]
    C4_allowedDomains [of "empty_config\<lparr>allowedDomains := Null\<rparr>" "[]"]
    C4_allowedDomains [of empty_config "[]"]
  by (simp add: empty_config_def)

text \<open>
  C5. \<open>block_pii\<close> is the boolean given as \<open>blockPii\<close>, and \<open>true\<close> when \<open>blockPii\<close> is
  missing; \<open>block_secrets\<close> likewise for \<open>blockSecrets\<close>. For the override object
  \<open>{blockSecrets: false}\<close> the output has \<open>block_secrets: false\<close> and every other field at
  its default, with no \<open>allowed_domains\<close>.
\<close>

theorem C5_block_flags:
  "(blockPii c = Bool b \<longrightarrow> policies (buildDefaultPolicies c) ''block_pii'' = Some (Bool b))
   \<and> (blockPii c = Undefined \<longrightarrow>
        policies (buildDefaultPolicies c) ''block_pii'' = Some (Bool True))
   \<and> (blockSecrets c = Bool b' \<longrightarrow>
        policies (buildDefaultPolicies c) ''block_secrets'' = Some (Bool b'))
   \<and> (blockSecrets c = Undefined \<longrightarrow>
        policies (buildDefaultPolicies c) ''block_secrets'' = Some (Bool True))
   \<and> buildDefaultPolicies (empty_config\<lparr>blockSecrets := Bool False\<rparr>) =
       \<lparr>policies = [''max_query_size'' \<mapsto> Num 1000,
                    ''require_approval_for'' \<mapsto> Arr [Str ''delete'', Str ''update'', Str ''export''],
                    ''block_pii'' \<mapsto> Bool True,
                    ''block_secrets'' \<mapsto> Bool False]\<rparr>
   \<and> policies (buildDefaultPolicies (empty_config\<lparr>blockSecrets := Bool False\<rparr>))
        ''allowed_domains'' = None"
  by (simp add: policies_build Let_def nullish_def empty_config_def
      buildDefaultPolicies_def getConfig_def new_DefaultPolicyPack_def DEFAULT_POLICY_CONFIG_def)

theorem C5_block_flags_witness:
  "blockPii (empty_config\<lparr>blockPii := Bool False\<rparr>) = Bool False
   \<and> policies (buildDefaultPolicies (empty_config\<lparr>blockPii := Bool False\<rparr>)) ''block_pii''
        = Some (Bool False)
   \<and> blockSecrets (empty_config\<lparr>blockPii := Bool False\<rparr>) = Undefined
   \<and> policies (buildDefaultPolicies (empty_config\<lparr>blockPii := Bool False\<rparr>)) ''block_secrets''
        = Some (Bool True)
   \<and> blockSecrets (empty_config\<lparr>blockSecrets := Bool False\<rparr>) = Bool False
   \<and> policies (buildDefaultPolicies (empty_config\<lparr>blockSecrets := Bool False\<rparr>)) ''block_secrets''
        = Some (Bool False)
   \<and> blockPii (empty_config\<lparr>blockSecrets := Bool False\<rparr>) = Undefined
   \<and> policies (buildDefaultPolicies (empty_config\<lparr>blockSecrets := Bool False\<rparr>)) ''block_pii''
        = Some (Bool True)"
  using C5_block_flags [of "empty_config\<lparr>blockPii := Bool False\<rparr>" False True]
    C5_block_flags [of "empty_config\<lparr>blockSecrets := Bool False\<rparr>" True False]
  by (simp add: empty_config_def)

text \<open>
  C6. The keys of the output are among \<open>allowed_domains\<close>, \<open>max_query_size\<close>,
  \<open>require_approval_for\<close>, \<open>block_pii\<close> and \<open>block_secrets\<close>, and the last two are
  always there.
\<close>

theorem C6_output_keys:
  "dom (policies (buildDefaultPolicies c)) \<subseteq>
     {''allowed_domains'', ''max_query_size'', ''require_approval_for'',
      ''block_pii'', ''block_secrets''}
   \<and> ''block_pii'' \<in> dom (policies (buildDefaultPolicies c))
   \<and> ''block_secrets'' \<in> dom (policies (buildDefaultPolicies c))"
  by (auto simp add: policies_build Let_def split: if_splits)

text \<open>
  C10. The boolean flags have no opt-out by \<open>null\<close>: with \<open>blockPii\<close> (or
  \<open>blockSecrets\<close>) set to \<open>null\<close> the key is emitted with the value \<open>true\<close>, as when
  the flag is missing.
\<close>

theorem C10_null_flag_is_default:
  "(blockPii c = Null \<longrightarrow> policies (buildDefaultPolicies c) ''block_pii'' = Some (Bool True))
   \<and> (blockSecrets c = Null \<longrightarrow>
        policies (buildDefaultPolicies c) ''block_secrets'' = Some (Bool True))"
  by (simp add: policies_build Let_def nullish_def)

theorem C10_null_flag_witness:
  "blockPii (empty_config\<lparr>blockPii := Null, blockSecrets := Null\<rparr>) = Null
   \<and> blockSecrets (empty_config\<lparr>blockPii := Null, blockSecrets := Null\<rparr>) = Null
   \<and> policies (buildDefaultPolicies (empty_config\<lparr>blockPii := Null, blockSecrets := Null\<rparr>))
        ''block_pii'' = Some (Bool True)
   \<and> policies (buildDefaultPolicies (empty_config\<lparr>blockPii := Null, blockSecrets := Null\<rparr>))
        ''block_secrets'' = Some (Bool True)
   \<and> policies (buildDefaultPolicies (empty_config\<lparr>blockPii := Null, blockSecrets := Null\<rparr>)) =
      policies (buildDefaultPolicies empty_config)"
  using C10_null_flag_is_default [of "empty_config\<lparr>blockPii := Null, blockSecrets := Null\<rparr>"]
  by (simp add: empty_config_def policies_build Let_def nullish_def)

section \<open>Properties of the policy pack on the store\<close>

































section \<open>Properties of the request layer\<close>

lemma attempts_nth:
  "i < length (snd (attempts cfg tr req n left)) \<Longrightarrow>
     snd (attempts cfg tr req n left) ! i = backoffDelay cfg (n + i)"
proof (induction left arbitrary: n i)
  case 0
  then show ?case by simp
next
  case (Suc left)
  show ?case
  proof (cases "retryable (tr req n)")
    case True
    obtain final ds where e: "attempts cfg tr req (Suc n) left = (final, ds)"
      by (cases "attempts cfg tr req (Suc n) left")
    with True have s: "snd (attempts cfg tr req n (Suc left)) = backoffDelay cfg n # ds"
      by (simp add: Let_def)
    show ?thesis
    proof (cases i)
      case 0
      with s show ?thesis by simp
    next
      case (Suc j)
      with Suc.prems s have "j < length ds" by simp
      with Suc.IH [of j "Suc n"] e have "ds ! j = backoffDelay cfg (Suc n + j)" by simp
      with s Suc show ?thesis by simp
    qed
  next
    case False
    with Suc.prems show ?thesis by (simp add: Let_def)
  qed
qed

lemma attempts_length: "length (snd (attempts cfg tr req n left)) \<le> left"
proof (induction left arbitrary: n)
  case 0
  show ?case by simp
next
  case (Suc left)
  show ?case
    using Suc.IH [of "Suc n"]
    by (cases "attempts cfg tr req (Suc n) left") (simp add: Let_def)
qed

lemma delays_send:
  "delays (send cfg tr spec) =
     snd (attempts cfg tr (fst (prepare cfg spec)) 1 (maxAttempts cfg - 1))"
  by (simp add: send_def split: prod.splits)

text \<open>
  C9. The call makes at most \<open>maxAttempts - 1\<close> retries, and the backoff delay before
  retry \<open>n\<close>, for every \<open>n \<ge> 1\<close> up to the number of retries made, is
  \<open>baseDelay * backoffMultiplier^(n-1)\<close>.
\<close>

theorem C9_backoff_delay:
  "length (delays (send cfg tr spec)) \<le> maxAttempts cfg - 1
   \<and> (1 \<le> n \<and> n \<le> length (delays (send cfg tr spec)) \<longrightarrow>
        delays (send cfg tr spec) ! (n - 1) = baseDelay cfg * backoffMultiplier cfg ^ (n - 1))"
proof (intro conjI impI)
  show "length (delays (send cfg tr spec)) \<le> maxAttempts cfg - 1"
    by (simp only: delays_send attempts_length)
next
  assume h: "1 \<le> n \<and> n \<le> length (delays (send cfg tr spec))"
  then have h1: "1 \<le> n" and h2: "n \<le> length (delays (send cfg tr spec))"
    by simp_all
  from h2 have "n \<le> length (snd (attempts cfg tr (fst (prepare cfg spec)) 1 (maxAttempts cfg - 1)))"
    by (simp only: delays_send)
  with h1 have "n - 1 < length (snd (attempts cfg tr (fst (prepare cfg spec)) 1 (maxAttempts cfg - 1)))"
    by arith
  from attempts_nth [OF this] h1
  show "delays (send cfg tr spec) ! (n - 1) = baseDelay cfg * backoffMultiplier cfg ^ (n - 1)"
    by (simp add: delays_send backoffDelay_def)
qed

theorem C9_backoff_delay_witness:
  "(1::nat) \<le> 3
   \<and> 3 \<le> length (delays (send
       \<lparr>apiKey = ''key'', baseUrl = ''https://api.example/'', defaultWorkspaceId = Some ''ws-0'',
        maxAttempts = 4, baseDelay = 100, backoffMultiplier = 2\<rparr>
       always_unavailable
       \<lparr>rmethod = GET, rpath = ''/agents'', rbody = None, rquery = [],
        workspaceOverride = None\<rparr>))
   \<and> delays (send
       \<lparr>apiKey = ''key'', baseUrl = ''https://api.example/'', defaultWorkspaceId = Some ''ws-0'',
        maxAttempts = 4, baseDelay = 100, backoffMultiplier = 2\<rparr>
       always_unavailable
       \<lparr>rmethod = GET, rpath = ''/agents'', rbody = None, rquery = [],
        workspaceOverride = None\<rparr>) ! (3 - 1) = 100 * 2 ^ (3 - 1)
   \<and> delays (send
       \<lparr>apiKey = ''key'', baseUrl = ''https://api.example/'', defaultWorkspaceId = Some ''ws-0'',
        maxAttempts = 4, baseDelay = 100, backoffMultiplier = 2\<rparr>
       always_unavailable
       \<lparr>rmethod = GET, rpath = ''/agents'', rbody = None, rquery = [],
        workspaceOverride = None\<rparr>) = [100, 200, 400]"
  using
    C9_backoff_delay
      [where cfg = "\<lparr>apiKey = ''key'', baseUrl = ''https://api.example/'',
                     defaultWorkspaceId = Some ''ws-0'',
                     maxAttempts = 4, baseDelay = 100, backoffMultiplier = 2\<rparr>"
         and tr = always_unavailable
         and spec = "\<lparr>rmethod = GET, rpath = ''/agents'', rbody = None, rquery = [],
                      workspaceOverride = None\<rparr>"
         and n = 3]
  by (simp add: delays_send always_unavailable_def backoffDelay_def Let_def numeral_3_eq_3)

end
